theory Spec2Isabelle
  imports Main
begin

section \<open>The BZFlag client: connection manager and game state client\<close>

text \<open>
  A shallow embedding of \<^verbatim>\<open>BZFlag/Client/Base.py\<close> (class \<^verbatim>\<open>BaseClient\<close>) and
  \<^verbatim>\<open>BZFlag/Client/Stateful.py\<close> (class \<^verbatim>\<open>StatefulClient\<close>). The attributes of the client
  object are the fields of a record that every method takes and returns; a raised exception
  is the first component of the result, next to the state the method had reached when it
  raised. Sockets are objects shared between \<^verbatim>\<open>self.tcp\<close>, \<^verbatim>\<open>self.multicast\<close> and the event
  loop, so they live in a store and are referred to by their index.
\<close>

subsection \<open>Exceptions, messages, notifications\<close>

text \<open>
  The exception classes the two modules raise (\<^verbatim>\<open>Errors.NetworkException\<close>,
  \<^verbatim>\<open>Errors.ProtocolError\<close>, \<^verbatim>\<open>Errors.ProtocolWarning\<close>), Python's \<^verbatim>\<open>AttributeError\<close> for
  a method called on \<^verbatim>\<open>None\<close> or an attribute that does not exist, Python's
  \<^verbatim>\<open>TypeError\<close> for a \<^verbatim>\<open>%d\<close> given something that is not a number, and the
  \<^verbatim>\<open>ConfigurationError\<close> of the specification's taxonomy, which no source line raises.
\<close>

datatype error =
    is_NetworkException: NetworkException string
  | is_ConfigurationError: ConfigurationError string
  | is_ProtocolError: ProtocolError string
  | is_ProtocolWarning: ProtocolWarning string
  | is_AttributeError: AttributeError string
  | is_TypeError: TypeError string

text \<open>
  The id of a flag's type, as a message carries it and as \<^verbatim>\<open>Flag.getDict()\<close> is keyed by
  it. \<^verbatim>\<open>negotiateFlags\<close> hands the keys to \<^verbatim>\<open>Flag.joinAbbreviations\<close>, so they are
  abbreviation strings; \<^verbatim>\<open>updateFlag\<close> formats the id with \<^verbatim>\<open>%d\<close>, as a number. The model
  has both kinds of value.
\<close>

datatype pyval = PyInt int | PyStr string

datatype handler = HandleHelloPacket | HandleMessage

text \<open>Messages from the server, with the fields the handlers read.\<close>

datatype frommsg =
    MsgSuperKill
  | MsgLagPing string
  | MsgNegotiateFlags string
  | MsgWantWHash string string
  | MsgGetWorld string nat
  | MsgAddPlayer int string
  | MsgRemovePlayer int
  | MsgPlayerUpdate int string
  | MsgFlagUpdate int pyval string
  | MsgGrabFlag int pyval string
  | MsgDropFlag int pyval string
  | MsgTeamUpdate
  | MsgNewRabbit
  | MsgShotBegin
  | MsgShotEnd
  | MsgAlive
  | MsgTeleport

text \<open>Messages written to a socket; \<open>Echo\<close> is an incoming message written back as it is.\<close>

datatype tosrv =
    OutNegotiateFlags string
  | OutWantWHash
  | OutGetWorld nat
  | Echo frommsg

datatype event = OnConnect | OnDisconnect | OnLoadWorld | OnStartWorldDownload | OnNegotiateFlags

text \<open>What arrives on a socket, as the installed handler decodes it.\<close>

datatype packet = Hello string int | Message frommsg

datatype action = Connect "string option" | Disconnect | Receive nat packet

subsection \<open>The state\<close>

record socket =
  peer :: "(string \<times> nat) option"
  handler :: "handler option"
  closed :: bool

record eventLoop =
  sources :: "nat list"
  running :: bool

record player =
  pdata :: string

record flag =
  fcls :: string
  fdata :: string

record 'w game =
  players :: "int \<rightharpoonup> player"
  flags :: "int \<rightharpoonup> flag"
  world :: 'w

text \<open>
  \<open>worldCache\<close> is whether \<^verbatim>\<open>self.worldCache\<close> holds a \<^verbatim>\<open>World.Cache\<close> object rather than
  \<^verbatim>\<open>None\<close>; \<open>cacheStore\<close> is the persistent store behind every such object. The attributes
  \<^verbatim>\<open>id\<close>, \<^verbatim>\<open>worldHash\<close> and \<^verbatim>\<open>binaryWorld\<close> do not exist until they are first assigned, and
  \<^verbatim>\<open>binaryWorld\<close> is deleted again: \<open>None\<close> is the missing attribute. \<open>wire\<close> is
  everything written to a socket so far, \<open>events\<close> every notification emitted so far.
\<close>

record 'w client =
  heap :: "socket list"
  tcp :: "nat option"
  udp :: "nat option"
  multicast :: "nat option"
  connected :: bool
  clientId :: "int option"
  game :: "'w game"
  worldCache :: bool
  cacheStore :: "string \<rightharpoonup> string"
  worldHash :: "string option"
  binaryWorld :: "string option"
  worldDownloaded :: bool
  eventLoop :: eventLoop
  wire :: "(nat \<times> tosrv) list"
  events :: "event list"

text \<open>
  The parts of the package the two modules use and that lie outside them:
  \<^verbatim>\<open>BZFlag.protocolVersion\<close>, \<^verbatim>\<open>Protocol.Common.defaultPort\<close>, \<^verbatim>\<open>Flag.getDict()\<close> (as an
  association list, \<^verbatim>\<open>keys()\<close> being its first components), \<^verbatim>\<open>Flag.joinAbbreviations\<close>,
  \<^verbatim>\<open>Flag.splitAbbreviations\<close>, \<^verbatim>\<open>World.loadBinary\<close> (it updates the world in place and may
  raise) and \<^verbatim>\<open>Socket.connect\<close> (it may raise).
\<close>

record 'w env =
  protocolVersion :: string
  defaultPort :: nat
  flagDict :: "(pyval \<times> string) list"
  joinAbbreviations :: "pyval list \<Rightarrow> string"
  splitAbbreviations :: "string \<Rightarrow> string list"
  loadBinary :: "'w \<Rightarrow> string \<Rightarrow> error option \<times> 'w"
  socketConnect :: "string \<Rightarrow> nat \<Rightarrow> error option"

type_synonym 'w result = "error option \<times> 'w client"

subsection \<open>String formatting\<close>

definition quote :: string where
  "quote = [CHR 0x27]"

definition digit :: "nat \<Rightarrow> char" where
  "digit n = ''0123456789'' ! n"

function str_nat :: "nat \<Rightarrow> string" where
  "str_nat n = (if n < 10 then [digit n] else str_nat (n div 10) @ [digit (n mod 10)])"
  by pat_completeness auto
termination
  by (relation "measure (\<lambda>n. n)") auto

text \<open>Python's \<^verbatim>\<open>"%d" % n\<close>.\<close>

definition str_int :: "int \<Rightarrow> string" where
  "str_int n = (if n < 0 then ''-'' @ str_nat (nat (- n)) else str_nat (nat n))"

text \<open>Python's \<^verbatim>\<open>sep.join(xs)\<close>.\<close>

fun join :: "string \<Rightarrow> string list \<Rightarrow> string" where
  "join sep [] = []"
| "join sep [x] = x"
| "join sep (x # y # ys) = x @ sep @ join sep (y # ys)"

definition versionMismatch :: "string \<Rightarrow> string \<Rightarrow> string" where
  "versionMismatch server mine =
     ''Protocol version mismatch: The server is version '' @
     quote @ server @ quote @ '', this client is version '' @ quote @ mine @ quote @ ''.''"

definition unknownFlagsMessage :: "string list \<Rightarrow> string" where
  "unknownFlagsMessage unknownFlags =
     ''Server knows about the following flags that we don'' @ quote @ ''t: '' @
     join '', '' unknownFlags"

text \<open>
  A value under \<^verbatim>\<open>%d\<close>: a number is formatted, a string raises \<^verbatim>\<open>TypeError\<close>.
\<close>

definition formatD :: "pyval \<Rightarrow> error + string" where
  "formatD v =
     (case v of
        PyInt n \<Rightarrow> Inr (str_int n)
      | PyStr a \<Rightarrow> Inl (TypeError ''%d format: a number is required, not str''))"

text \<open>
  \<^verbatim>\<open>"Can't update flag number %d with unknown ID %d" % (msg.flagNum, msg.update.id)\<close>:
  the flag number is a number, the id is whatever the message carries.
\<close>

definition unknownIdMessage :: "int \<Rightarrow> pyval \<Rightarrow> error + string" where
  "unknownIdMessage flagNum fid =
     (case formatD fid of
        Inl e \<Rightarrow> Inl e
      | Inr t \<Rightarrow>
          Inr (''Can'' @ quote @ ''t update flag number '' @ str_int flagNum @
               '' with unknown ID '' @ t))"

subsection \<open>Collaborators\<close>

text \<open>
  Modelled from the spec: \<^verbatim>\<open>Network.Socket\<close> and the event loop's \<^verbatim>\<open>add\<close>, \<^verbatim>\<open>remove\<close> and
  \<^verbatim>\<open>stop\<close> are not part of the two modules. A new socket is unconnected, has no handler
  and is open; \<^verbatim>\<open>add\<close> registers a source, \<^verbatim>\<open>remove\<close> deregisters it, \<^verbatim>\<open>stop\<close> halts the
  loop; \<^verbatim>\<open>write\<close> appends to what has been sent.
\<close>

definition newSocket :: socket where
  "newSocket = \<lparr>peer = None, handler = None, closed = False\<rparr>"

definition loopAdd :: "nat \<Rightarrow> eventLoop \<Rightarrow> eventLoop" where
  "loopAdd s l = l\<lparr>sources := sources l @ [s]\<rparr>"

definition loopRemove :: "nat \<Rightarrow> eventLoop \<Rightarrow> eventLoop" where
  "loopRemove s l = l\<lparr>sources := removeAll s (sources l)\<rparr>"

definition loopStop :: "eventLoop \<Rightarrow> eventLoop" where
  "loopStop l = l\<lparr>running := False\<rparr>"

definition closeSocket :: "nat \<Rightarrow> socket list \<Rightarrow> socket list" where
  "closeSocket s h = h[s := (h ! s)\<lparr>closed := True\<rparr>]"

definition setHandler :: "nat \<Rightarrow> handler \<Rightarrow> socket list \<Rightarrow> socket list" where
  "setHandler s f h = h[s := (h ! s)\<lparr>handler := Some f\<rparr>]"

definition setPeer :: "nat \<Rightarrow> string \<Rightarrow> nat \<Rightarrow> socket list \<Rightarrow> socket list" where
  "setPeer s a p h = h[s := (h ! s)\<lparr>peer := Some (a, p)\<rparr>]"

definition emit :: "event \<Rightarrow> 'w client \<Rightarrow> 'w client" where
  "emit e c = c\<lparr>events := events c @ [e]\<rparr>"

text \<open>\<^verbatim>\<open>self.tcp.write(m)\<close>: on \<^verbatim>\<open>None\<close> the attribute lookup raises.\<close>

definition tcpWrite :: "tosrv \<Rightarrow> 'w client \<Rightarrow> 'w result" where
  "tcpWrite m c =
     (case tcp c of
        None \<Rightarrow> (Some (AttributeError ''write''), c)
      | Some s \<Rightarrow> (None, c\<lparr>wire := wire c @ [(s, m)]\<rparr>))"

text \<open>
  Modelled from the spec: \<^verbatim>\<open>World.Cache\<close> is a content-addressable store keyed by the
  world's hash, with \<^verbatim>\<open>hasWorld\<close>, \<^verbatim>\<open>openWorld\<close> and \<^verbatim>\<open>storeWorld\<close>.
\<close>

definition hasWorld :: "(string \<rightharpoonup> string) \<Rightarrow> string \<Rightarrow> bool" where
  "hasWorld store h = (store h \<noteq> None)"

definition openWorld :: "(string \<rightharpoonup> string) \<Rightarrow> string \<Rightarrow> string" where
  "openWorld store h = (case store h of Some b \<Rightarrow> b | None \<Rightarrow> [])"

definition storeWorld :: "string \<Rightarrow> string \<Rightarrow> (string \<rightharpoonup> string) \<Rightarrow> (string \<rightharpoonup> string)" where
  "storeWorld h b store = store(h \<mapsto> b)"

text \<open>
  Modelled from the spec: the game model (\<^verbatim>\<open>Game\<close>, \<^verbatim>\<open>Player\<close>, \<^verbatim>\<open>Flag\<close>) maps player ids
  to players and flag numbers to flags. \<^verbatim>\<open>addPlayer\<close> inserts under the id of the message,
  \<^verbatim>\<open>removePlayer\<close> removes the id when present, \<^verbatim>\<open>updateFromMessage\<close> takes the fields of
  the message, and \<^verbatim>\<open>getFlag\<close> gives the flag of that number and class, making it when it
  is not there.
\<close>

definition addPlayer :: "int \<Rightarrow> string \<Rightarrow> 'w game \<Rightarrow> 'w game" where
  "addPlayer i d g = g\<lparr>players := (players g)(i \<mapsto> \<lparr>pdata = d\<rparr>)\<rparr>"

definition removePlayer :: "int \<Rightarrow> 'w game \<Rightarrow> 'w game" where
  "removePlayer i g = g\<lparr>players := (players g)(i := None)\<rparr>"

definition getFlag :: "int \<Rightarrow> string \<Rightarrow> 'w game \<Rightarrow> flag" where
  "getFlag n cls g =
     (case flags g n of
        Some f \<Rightarrow> (if fcls f = cls then f else \<lparr>fcls = cls, fdata = []\<rparr>)
      | None \<Rightarrow> \<lparr>fcls = cls, fdata = []\<rparr>)"

subsection \<open>BaseClient\<close>

text \<open>
  \<^verbatim>\<open>init\<close> of both classes: no socket, not connected, a new game, no cache object. The
  world of a new game and the content of the persistent cache are given.
\<close>

definition init :: "'w \<Rightarrow> (string \<rightharpoonup> string) \<Rightarrow> 'w client" where
  "init w store =
     \<lparr>heap = [], tcp = None, udp = None, multicast = None, connected = False,
      clientId = None,
      game = \<lparr>players = Map.empty, flags = Map.empty, world = w\<rparr>,
      worldCache = False, cacheStore = store, worldHash = None, binaryWorld = None,
      worldDownloaded = False,
      eventLoop = \<lparr>sources = [], running = True\<rparr>,
      wire = [], events = []\<rparr>"

text \<open>\<^verbatim>\<open>onDisconnect\<close>: the notification, whose first handler is the method that stops the loop.\<close>

definition onDisconnect :: "'w client \<Rightarrow> 'w client" where
  "onDisconnect c = (emit OnDisconnect c)\<lparr>eventLoop := loopStop (eventLoop c)\<rparr>"

definition disconnect :: "'w client \<Rightarrow> 'w result" where
  "disconnect c =
     (let c1 = (case tcp c of
                  Some s \<Rightarrow> c\<lparr>heap := closeSocket s (heap c),
                              eventLoop := loopRemove s (eventLoop c),
                              tcp := None\<rparr>
                | None \<Rightarrow> c);
          c2 = (case udp c1 of
                  Some s \<Rightarrow> c1\<lparr>heap := closeSocket s (heap c1),
                               eventLoop := loopRemove s (eventLoop c1),
                               udp := None\<rparr>
                | None \<Rightarrow> c1)
      in (None, onDisconnect (c2\<lparr>multicast := None, connected := False\<rparr>)))"

text \<open>\<^verbatim>\<open>not server\<close> holds of \<^verbatim>\<open>None\<close> and of the empty string.\<close>

definition connect :: "'w env \<Rightarrow> string option \<Rightarrow> 'w client \<Rightarrow> 'w result" where
  "connect env server c =
     (case server of
        None \<Rightarrow> (Some (NetworkException ''A server must be specified''), c)
      | Some a \<Rightarrow>
          if a = [] then (Some (NetworkException ''A server must be specified''), c)
          else
            let c1 = (if tcp c \<noteq> None then snd (disconnect c) else c);
                s = length (heap c1);
                c2 = c1\<lparr>heap := heap c1 @ [newSocket], tcp := Some s\<rparr>
            in (case socketConnect env a (defaultPort env) of
                  Some e \<Rightarrow> (Some e, c2)
                | None \<Rightarrow>
                    (None,
                     c2\<lparr>heap := setHandler s HandleHelloPacket
                                  (setPeer s a (defaultPort env) (heap c2)),
                        eventLoop := loopAdd s (eventLoop c2),
                        multicast := Some s\<rparr>)))"

subsection \<open>StatefulClient\<close>

definition negotiateFlags :: "'w env \<Rightarrow> 'w client \<Rightarrow> 'w result" where
  "negotiateFlags env c =
     tcpWrite (OutNegotiateFlags (joinAbbreviations env (map fst (flagDict env)))) c"

text \<open>\<^verbatim>\<open>onConnect\<close> has no method of its own; its one observer is \<^verbatim>\<open>negotiateFlags\<close>.\<close>

definition onConnect :: "'w env \<Rightarrow> 'w client \<Rightarrow> 'w result" where
  "onConnect env c = negotiateFlags env (emit OnConnect c)"

definition handleHelloPacket :: "'w env \<Rightarrow> nat \<Rightarrow> string \<Rightarrow> int \<Rightarrow> 'w client \<Rightarrow> 'w result" where
  "handleHelloPacket env s version cid c =
     (if version \<noteq> protocolVersion env
      then (Some (ProtocolError (versionMismatch version (protocolVersion env))), c)
      else onConnect env
             (c\<lparr>clientId := Some cid, connected := True,
                heap := setHandler s HandleMessage (heap c)\<rparr>))"

definition onMsgSuperKill :: "'w client \<Rightarrow> 'w result" where
  "onMsgSuperKill c = disconnect c"

definition onMsgLagPing :: "nat \<Rightarrow> frommsg \<Rightarrow> 'w client \<Rightarrow> 'w result" where
  "onMsgLagPing s msg c = (None, c\<lparr>wire := wire c @ [(s, Echo msg)]\<rparr>)"

definition getWorldHash :: "'w client \<Rightarrow> 'w result" where
  "getWorldHash c = tcpWrite OutWantWHash c"

definition onNegotiateFlags :: "'w client \<Rightarrow> 'w result" where
  "onNegotiateFlags c = getWorldHash (emit OnNegotiateFlags c)"

definition onMsgNegotiateFlags :: "'w env \<Rightarrow> string \<Rightarrow> 'w client \<Rightarrow> 'w result" where
  "onMsgNegotiateFlags env d c =
     (let unknownFlags = splitAbbreviations env d
      in if unknownFlags \<noteq> []
         then (Some (ProtocolError (unknownFlagsMessage unknownFlags)), c)
         else onNegotiateFlags c)"

definition downloadWorld :: "'w client \<Rightarrow> 'w result" where
  "downloadWorld c =
     tcpWrite (OutGetWorld 0) ((emit OnStartWorldDownload c)\<lparr>binaryWorld := Some []\<rparr>)"

definition onMsgWantWHash :: "'w env \<Rightarrow> string \<Rightarrow> string \<Rightarrow> 'w client \<Rightarrow> 'w result" where
  "onMsgWantWHash env lifetime h c =
     (let c1 = c\<lparr>worldCache := (lifetime = ''permanent''), worldHash := Some h\<rparr>
      in if worldCache c1 \<and> hasWorld (cacheStore c1) h
         then (case loadBinary env (world (game c1)) (openWorld (cacheStore c1) h) of
                 (Some e, w) \<Rightarrow> (Some e, c1\<lparr>game := (game c1)\<lparr>world := w\<rparr>\<rparr>)
               | (None, w) \<Rightarrow> (None, emit OnLoadWorld (c1\<lparr>game := (game c1)\<lparr>world := w\<rparr>\<rparr>)))
         else downloadWorld c1)"

definition onMsgGetWorld :: "'w env \<Rightarrow> string \<Rightarrow> nat \<Rightarrow> 'w client \<Rightarrow> 'w result" where
  "onMsgGetWorld env d remaining c =
     (case binaryWorld c of
        None \<Rightarrow> (Some (AttributeError ''binaryWorld''), c)
      | Some b \<Rightarrow>
          let c1 = c\<lparr>binaryWorld := Some (b @ d)\<rparr>
          in if remaining \<noteq> 0
             then tcpWrite (OutGetWorld (length (b @ d))) c1
             else
               (case (if worldCache c1
                      then (case worldHash c1 of
                              None \<Rightarrow> Inl (AttributeError ''worldHash'')
                            | Some h \<Rightarrow> Inr (c1\<lparr>cacheStore := storeWorld h (b @ d) (cacheStore c1)\<rparr>))
                      else Inr c1) of
                  Inl e \<Rightarrow> (Some e, c1)
                | Inr c2 \<Rightarrow>
                    (case loadBinary env (world (game c2)) (b @ d) of
                       (Some e, w) \<Rightarrow> (Some e, c2\<lparr>game := (game c2)\<lparr>world := w\<rparr>\<rparr>)
                     | (None, w) \<Rightarrow>
                         (None,
                          emit OnLoadWorld
                            (c2\<lparr>game := (game c2)\<lparr>world := w\<rparr>,
                                binaryWorld := None,
                                worldDownloaded := True\<rparr>)))))"

definition onMsgAddPlayer :: "int \<Rightarrow> string \<Rightarrow> 'w client \<Rightarrow> 'w result" where
  "onMsgAddPlayer i d c = (None, c\<lparr>game := addPlayer i d (game c)\<rparr>)"

definition onMsgRemovePlayer :: "int \<Rightarrow> 'w client \<Rightarrow> 'w result" where
  "onMsgRemovePlayer i c = (None, c\<lparr>game := removePlayer i (game c)\<rparr>)"

text \<open>\<^verbatim>\<open>self.game.players[msg.id]\<close> raises \<^verbatim>\<open>KeyError\<close> on a missing id, which is caught.\<close>

definition onMsgPlayerUpdate :: "int \<Rightarrow> string \<Rightarrow> 'w client \<Rightarrow> 'w result" where
  "onMsgPlayerUpdate i d c =
     (case players (game c) i of
        None \<Rightarrow> (None, c)
      | Some p \<Rightarrow> (None, c\<lparr>game := (game c)\<lparr>players := (players (game c))(i \<mapsto> p\<lparr>pdata := d\<rparr>)\<rparr>\<rparr>))"

text \<open>
  \<^verbatim>\<open>Flag.getDict()[msg.update.id]\<close> is evaluated before \<^verbatim>\<open>getFlag\<close> is called. In the
  handler of its \<^verbatim>\<open>KeyError\<close> the text of the warning is built first: when that raises,
  its exception leaves the method and no warning is made.
\<close>

definition updateFlag :: "'w env \<Rightarrow> int \<Rightarrow> pyval \<Rightarrow> string \<Rightarrow> 'w client \<Rightarrow> 'w result" where
  "updateFlag env flagNum fid d c =
     (case map_of (flagDict env) fid of
        None \<Rightarrow>
          (case unknownIdMessage flagNum fid of
             Inl e \<Rightarrow> (Some e, c)
           | Inr m \<Rightarrow> (Some (ProtocolWarning m), c))
      | Some cls \<Rightarrow>
          (None,
           c\<lparr>game := (game c)\<lparr>flags := (flags (game c))
                (flagNum \<mapsto> (getFlag flagNum cls (game c))\<lparr>fdata := d\<rparr>)\<rparr>\<rparr>))"

definition onMsgFlagUpdate :: "'w env \<Rightarrow> int \<Rightarrow> pyval \<Rightarrow> string \<Rightarrow> 'w client \<Rightarrow> 'w result" where
  "onMsgFlagUpdate env flagNum fid d c = updateFlag env flagNum fid d c"

definition onMsgGrabFlag :: "'w env \<Rightarrow> int \<Rightarrow> pyval \<Rightarrow> string \<Rightarrow> 'w client \<Rightarrow> 'w result" where
  "onMsgGrabFlag env flagNum fid d c = updateFlag env flagNum fid d c"

definition onMsgDropFlag :: "'w env \<Rightarrow> int \<Rightarrow> pyval \<Rightarrow> string \<Rightarrow> 'w client \<Rightarrow> 'w result" where
  "onMsgDropFlag env flagNum fid d c = updateFlag env flagNum fid d c"

subsection \<open>Dispatch and the event loop\<close>

text \<open>
  Modelled from the spec: \<^verbatim>\<open>Network.Endpoint.handleMessage\<close>, the handler of a socket once
  the handshake is done, routes a message to the method named after its type; the
  argument \<open>s\<close> is the socket the message came from (\<^verbatim>\<open>msg.socket\<close>).
\<close>

fun handleMessage :: "'w env \<Rightarrow> nat \<Rightarrow> frommsg \<Rightarrow> 'w client \<Rightarrow> 'w result" where
  "handleMessage env s MsgSuperKill c = onMsgSuperKill c"
| "handleMessage env s (MsgLagPing p) c = onMsgLagPing s (MsgLagPing p) c"
| "handleMessage env s (MsgNegotiateFlags d) c = onMsgNegotiateFlags env d c"
| "handleMessage env s (MsgWantWHash lifetime h) c = onMsgWantWHash env lifetime h c"
| "handleMessage env s (MsgGetWorld d remaining) c = onMsgGetWorld env d remaining c"
| "handleMessage env s (MsgAddPlayer i d) c = onMsgAddPlayer i d c"
| "handleMessage env s (MsgRemovePlayer i) c = onMsgRemovePlayer i c"
| "handleMessage env s (MsgPlayerUpdate i d) c = onMsgPlayerUpdate i d c"
| "handleMessage env s (MsgFlagUpdate n fid d) c = onMsgFlagUpdate env n fid d c"
| "handleMessage env s (MsgGrabFlag n fid d) c = onMsgGrabFlag env n fid d c"
| "handleMessage env s (MsgDropFlag n fid d) c = onMsgDropFlag env n fid d c"
| "handleMessage env s MsgTeamUpdate c = (None, c)"
| "handleMessage env s MsgNewRabbit c = (None, c)"
| "handleMessage env s MsgShotBegin c = (None, c)"
| "handleMessage env s MsgShotEnd c = (None, c)"
| "handleMessage env s MsgAlive c = (None, c)"
| "handleMessage env s MsgTeleport c = (None, c)"

text \<open>
  Modelled from the spec: the event loop calls the handler installed on a registered
  socket when data arrives on it. Data on a socket that is not registered, or of a kind
  its handler does not read, is an event that cannot happen and changes nothing.
\<close>

definition receive :: "'w env \<Rightarrow> nat \<Rightarrow> packet \<Rightarrow> 'w client \<Rightarrow> 'w result" where
  "receive env s p c =
     (if s \<in> set (sources (eventLoop c)) \<and> s < length (heap c)
      then (case (handler (heap c ! s), p) of
              (Some HandleHelloPacket, Hello v cid) \<Rightarrow> handleHelloPacket env s v cid c
            | (Some HandleMessage, Message m) \<Rightarrow> handleMessage env s m c
            | _ \<Rightarrow> (None, c))
      else (None, c))"

fun step :: "'w env \<Rightarrow> action \<Rightarrow> 'w client \<Rightarrow> 'w result" where
  "step env (Connect server) c = connect env server c"
| "step env Disconnect c = disconnect c"
| "step env (Receive s p) c = receive env s p c"

text \<open>A run stops at the first exception, which leaves the event loop.\<close>

fun run :: "'w env \<Rightarrow> action list \<Rightarrow> 'w client \<Rightarrow> 'w result" where
  "run env [] c = (None, c)"
| "run env (a # as) c =
     (case step env a c of
        (None, c') \<Rightarrow> run env as c'
      | (Some e, c') \<Rightarrow> (Some e, c'))"

text \<open>
  The states a client can be in: those of a new client, and those any call or any
  arriving data leads to, also after an exception.
\<close>

inductive reachable :: "'w env \<Rightarrow> 'w client \<Rightarrow> bool" for env :: "'w env" where
  reachable_init: "reachable env (init w store)"
| reachable_step: "reachable env c \<Longrightarrow> reachable env (snd (step env a c))"

subsection \<open>What stays true of the connection\<close>

text \<open>
  In every state the client can be in: there is no UDP socket; without a TCP socket the
  client is not connected and nothing is registered with the event loop; with one, it is
  the only registered source, and the client is connected only once that socket's handler
  is the message dispatch.
\<close>

definition connInv :: "'w client \<Rightarrow> bool" where
  "connInv c =
     (udp c = None \<and>
      (case tcp c of
         None \<Rightarrow> multicast c = None \<and> \<not> connected c \<and> sources (eventLoop c) = []
       | Some s \<Rightarrow> s < length (heap c) \<and> set (sources (eventLoop c)) \<subseteq> {s} \<and>
                   (connected c \<longrightarrow> handler (heap c ! s) = Some HandleMessage)))"

text \<open>Two states with the same sockets, connection fields and registered sources.\<close>

definition sameConn :: "'w client \<Rightarrow> 'w client \<Rightarrow> bool" where
  "sameConn c c' =
     (heap c' = heap c \<and> tcp c' = tcp c \<and> udp c' = udp c \<and> multicast c' = multicast c \<and>
      connected c' = connected c \<and> sources (eventLoop c') = sources (eventLoop c))"


subsection \<open>A concrete server and session\<close>

definition scenario_env :: "string env" where
  "scenario_env =
     \<lparr>protocolVersion = ''1.0'', defaultPort = 5155,
      flagDict = [(PyStr ''A'', ''FlagA''), (PyStr ''B'', ''FlagB'')],
      joinAbbreviations =
        (\<lambda>ks. concat (map (\<lambda>k. case k of PyStr a \<Rightarrow> a | PyInt n \<Rightarrow> str_int n) ks)),
      splitAbbreviations = (\<lambda>d. map (\<lambda>ch. [ch]) d),
      loadBinary = (\<lambda>w b. (None, b)),
      socketConnect = (\<lambda>a p. None)\<rparr>"

definition scenario_init :: "string client" where
  "scenario_init = init [] Map.empty"

text \<open>Connected to the server, the handshake not yet received.\<close>

definition scenario_connecting :: "string client" where
  "scenario_connecting =
     snd (step scenario_env (Connect (Some ''bzflag.example.org'')) scenario_init)"

text \<open>Connected, flags negotiated, hash received and missed: the download has started.\<close>

definition scenario_download_started :: "string client" where
  "scenario_download_started =
     snd (run scenario_env
            [Connect (Some ''bzflag.example.org''),
             Receive 0 (Hello ''1.0'' 7),
             Receive 0 (Message (MsgNegotiateFlags [])),
             Receive 0 (Message (MsgWantWHash ''permanent'' ''abc123''))]
            scenario_init)"

text \<open>Connected, flags negotiated, hash received and missed, one chunk received.\<close>

definition scenario_downloading :: "string client" where
  "scenario_downloading =
     snd (run scenario_env
            [Connect (Some ''bzflag.example.org''),
             Receive 0 (Hello ''1.0'' 7),
             Receive 0 (Message (MsgNegotiateFlags [])),
             Receive 0 (Message (MsgWantWHash ''permanent'' ''abc123'')),
             Receive 0 (Message (MsgGetWorld ''AAAA'' 2))]
            scenario_init)"

section \<open>Properties\<close>

lemmas collaborator_defs =
  newSocket_def loopAdd_def loopRemove_def loopStop_def closeSocket_def setHandler_def
  setPeer_def emit_def tcpWrite_def hasWorld_def openWorld_def storeWorld_def
  addPlayer_def removePlayer_def getFlag_def

lemma str_int_examples:
  "str_int 0 = ''0''" "str_int 3 = ''3''" "str_int 42 = ''42''" "str_int (- 42) = ''-42''"
  by (simp_all add: str_int_def digit_def)

lemma join_Cons: "join sep (x # xs) = x @ concat (map (\<lambda>y. sep @ y) xs)"
  by (induction xs arbitrary: x) simp_all

lemmas handler_defs =
  connect_def disconnect_def onDisconnect_def receive_def handleHelloPacket_def onConnect_def
  negotiateFlags_def onMsgNegotiateFlags_def onNegotiateFlags_def getWorldHash_def
  onMsgWantWHash_def downloadWorld_def onMsgGetWorld_def

lemma scenario_connecting_eq:
  "scenario_connecting =
     \<lparr>heap = [\<lparr>peer = Some (''bzflag.example.org'', 5155), handler = Some HandleHelloPacket,
               closed = False\<rparr>],
      tcp = Some 0, udp = None, multicast = Some 0, connected = False, clientId = None,
      game = \<lparr>players = Map.empty, flags = Map.empty, world = []\<rparr>,
      worldCache = False, cacheStore = Map.empty, worldHash = None, binaryWorld = None,
      worldDownloaded = False,
      eventLoop = \<lparr>sources = [0], running = True\<rparr>,
      wire = [], events = []\<rparr>"
  by (simp add: scenario_connecting_def scenario_init_def scenario_env_def init_def
        handler_defs collaborator_defs Let_def)

lemma scenario_downloading_eq:
  "scenario_downloading =
     \<lparr>heap = [\<lparr>peer = Some (''bzflag.example.org'', 5155), handler = Some HandleMessage,
               closed = False\<rparr>],
      tcp = Some 0, udp = None, multicast = Some 0, connected = True, clientId = Some 7,
      game = \<lparr>players = Map.empty, flags = Map.empty, world = []\<rparr>,
      worldCache = True, cacheStore = Map.empty, worldHash = Some ''abc123'',
      binaryWorld = Some ''AAAA'', worldDownloaded = False,
      eventLoop = \<lparr>sources = [0], running = True\<rparr>,
      wire = [(0, OutNegotiateFlags ''AB''), (0, OutWantWHash), (0, OutGetWorld 0),
              (0, OutGetWorld 4)],
      events = [OnConnect, OnNegotiateFlags, OnStartWorldDownload]\<rparr>"
  by (simp add: scenario_downloading_def scenario_init_def scenario_env_def init_def
        handler_defs collaborator_defs Let_def str_int_def digit_def)

lemma scenario_download_started_eq:
  "scenario_download_started =
     \<lparr>heap = [\<lparr>peer = Some (''bzflag.example.org'', 5155), handler = Some HandleMessage,
               closed = False\<rparr>],
      tcp = Some 0, udp = None, multicast = Some 0, connected = True, clientId = Some 7,
      game = \<lparr>players = Map.empty, flags = Map.empty, world = []\<rparr>,
      worldCache = True, cacheStore = Map.empty, worldHash = Some ''abc123'',
      binaryWorld = Some [], worldDownloaded = False,
      eventLoop = \<lparr>sources = [0], running = True\<rparr>,
      wire = [(0, OutNegotiateFlags ''AB''), (0, OutWantWHash), (0, OutGetWorld 0)],
      events = [OnConnect, OnNegotiateFlags, OnStartWorldDownload]\<rparr>"
  by (simp add: scenario_download_started_def scenario_init_def scenario_env_def init_def
        handler_defs collaborator_defs Let_def str_int_def digit_def)

lemma reachable_scenario_connecting: "reachable scenario_env scenario_connecting"
  unfolding scenario_connecting_def scenario_init_def
  by (rule reachable_step) (rule reachable_init)

subsection \<open>The invariant of the connection\<close>

lemma removeAll_subset_singleton: "set xs \<subseteq> {s} \<Longrightarrow> removeAll s xs = []"
  by (induction xs) auto

lemma connInv_init: "connInv (init w store)"
  by (simp add: connInv_def init_def)

lemma connInv_disconnect: "connInv c \<Longrightarrow> connInv (snd (disconnect c))"
  by (auto simp: connInv_def disconnect_def onDisconnect_def collaborator_defs Let_def
        removeAll_subset_singleton split: option.splits)

lemma disconnect_fields:
  "tcp (snd (disconnect c)) = None"
  "udp (snd (disconnect c)) = None"
  "multicast (snd (disconnect c)) = None"
  "\<not> connected (snd (disconnect c))"
  "length (heap (snd (disconnect c))) = length (heap c)"
  by (simp_all add: disconnect_def onDisconnect_def collaborator_defs Let_def
        split: option.splits)

lemma connInv_connect: "connInv c \<Longrightarrow> connInv (snd (connect env server c))"
proof -
  assume inv: "connInv c"
  show ?thesis
  proof (cases "server = None \<or> server = Some []")
    case True
    then show ?thesis using inv by (auto simp: connect_def)
  next
    case False
    then obtain a where a: "server = Some a" "a \<noteq> []" by auto
    define c1 where "c1 = (if tcp c \<noteq> None then snd (disconnect c) else c)"
    have inv1: "connInv c1"
      using inv by (simp add: c1_def connInv_disconnect)
    have t1: "tcp c1 = None"
      by (simp add: c1_def disconnect_fields)
    from inv1 t1 have f1: "udp c1 = None" "\<not> connected c1" "sources (eventLoop c1) = []"
      by (simp_all add: connInv_def)
    have "connect env server c =
        (let s = length (heap c1); c2 = c1\<lparr>heap := heap c1 @ [newSocket], tcp := Some s\<rparr>
         in (case socketConnect env a (defaultPort env) of
               Some e \<Rightarrow> (Some e, c2)
             | None \<Rightarrow>
                 (None,
                  c2\<lparr>heap := setHandler s HandleHelloPacket
                               (setPeer s a (defaultPort env) (heap c2)),
                     eventLoop := loopAdd s (eventLoop c2),
                     multicast := Some s\<rparr>)))"
      using a by (simp add: connect_def c1_def Let_def)
    then show ?thesis
      using f1 by (auto simp: connInv_def collaborator_defs Let_def split: option.splits)
  qed
qed

lemma sameConn_handleMessage:
  "m \<noteq> MsgSuperKill \<Longrightarrow> sameConn c (snd (handleMessage env s m c))"
  by (cases m)
     (auto simp: sameConn_def onMsgLagPing_def onMsgNegotiateFlags_def onNegotiateFlags_def
        getWorldHash_def onMsgWantWHash_def downloadWorld_def onMsgGetWorld_def
        onMsgAddPlayer_def onMsgRemovePlayer_def onMsgPlayerUpdate_def onMsgFlagUpdate_def
        onMsgGrabFlag_def onMsgDropFlag_def updateFlag_def collaborator_defs Let_def
        split: option.splits prod.splits sum.splits if_splits)

lemma connInv_sameConn: "connInv c \<Longrightarrow> sameConn c c' \<Longrightarrow> connInv c'"
  by (auto simp: connInv_def sameConn_def split: option.splits)

lemma connInv_handleMessage: "connInv c \<Longrightarrow> connInv (snd (handleMessage env s m c))"
proof (cases "m = MsgSuperKill")
  case True
  assume "connInv c"
  with True show ?thesis by (simp add: onMsgSuperKill_def connInv_disconnect)
next
  case False
  assume "connInv c"
  with False show ?thesis
    by (blast intro: connInv_sameConn sameConn_handleMessage)
qed

lemma connInv_handleHelloPacket:
  "connInv c \<Longrightarrow> s \<in> set (sources (eventLoop c)) \<Longrightarrow>
     connInv (snd (handleHelloPacket env s v n c))"
  by (auto simp: connInv_def handleHelloPacket_def onConnect_def negotiateFlags_def
        collaborator_defs split: option.splits)

lemma connInv_receive: "connInv c \<Longrightarrow> connInv (snd (receive env s p c))"
  by (auto simp: receive_def connInv_handleMessage connInv_handleHelloPacket
        split: option.splits handler.splits packet.splits)

lemma connInv_step: "connInv c \<Longrightarrow> connInv (snd (step env a c))"
  by (cases a) (simp_all add: connInv_connect connInv_disconnect connInv_receive)

lemma reachable_connInv: "reachable env c \<Longrightarrow> connInv c"
  by (induction rule: reachable.induct) (simp_all add: connInv_init connInv_step)

subsection \<open>The handshake\<close>

text \<open>
  C2. In every state the client can reach: when connect returns, connected is false;
  while the socket's handler is the handshake handler, connected is false, a handshake
  whose version differs from the client's raises a ProtocolError whose message holds
  both versions, each between quotes, and leaves the client, connected included, as it
  was, and a handshake
  with the client's version sets connected; and connected goes from false to true in no
  other step than the receipt of a handshake with the client's version.
\<close>

theorem handshake_sets_connected:
  "reachable env c \<Longrightarrow>
     (fst (connect env server c) = None \<longrightarrow> \<not> connected (snd (connect env server c))) \<and>
     (s \<in> set (sources (eventLoop c)) \<longrightarrow> handler (heap c ! s) = Some HandleHelloPacket \<longrightarrow>
        \<not> connected c \<and>
        (v \<noteq> protocolVersion env \<longrightarrow>
           step env (Receive s (Hello v n)) c =
             (Some (ProtocolError
                (''Protocol version mismatch: The server is version '' @
                 [CHR 0x27] @ v @ [CHR 0x27] @ '', this client is version '' @
                 [CHR 0x27] @ protocolVersion env @ [CHR 0x27] @ ''.'')), c)) \<and>
        (v = protocolVersion env \<longrightarrow>
           fst (step env (Receive s (Hello v n)) c) = None \<and>
           connected (snd (step env (Receive s (Hello v n)) c)))) \<and>
     (\<not> connected c \<longrightarrow> connected (snd (step env a c)) \<longrightarrow>
        (\<exists>s' n'. a = Receive s' (Hello (protocolVersion env) n')))"
proof -
  assume r: "reachable env c"
  then have inv: "connInv c" by (rule reachable_connInv)
  have A: "fst (connect env server c) = None \<longrightarrow> \<not> connected (snd (connect env server c))"
    using inv by (auto simp: connect_def connInv_def collaborator_defs Let_def disconnect_fields
                     split: option.splits if_splits)
  have B: "s \<in> set (sources (eventLoop c)) \<longrightarrow> handler (heap c ! s) = Some HandleHelloPacket \<longrightarrow>
        \<not> connected c \<and>
        (v \<noteq> protocolVersion env \<longrightarrow>
           step env (Receive s (Hello v n)) c =
             (Some (ProtocolError
                (''Protocol version mismatch: The server is version '' @
                 [CHR 0x27] @ v @ [CHR 0x27] @ '', this client is version '' @
                 [CHR 0x27] @ protocolVersion env @ [CHR 0x27] @ ''.'')), c)) \<and>
        (v = protocolVersion env \<longrightarrow>
           fst (step env (Receive s (Hello v n)) c) = None \<and>
           connected (snd (step env (Receive s (Hello v n)) c)))"
    using inv by (auto simp: connInv_def receive_def handleHelloPacket_def onConnect_def
                     negotiateFlags_def versionMismatch_def quote_def collaborator_defs
                     split: option.splits)
  have C: "\<not> connected c \<longrightarrow> connected (snd (step env a c)) \<longrightarrow>
        (\<exists>s' n'. a = Receive s' (Hello (protocolVersion env) n'))"
  proof (intro impI)
    assume nc: "\<not> connected c" and co: "connected (snd (step env a c))"
    show "\<exists>s' n'. a = Receive s' (Hello (protocolVersion env) n')"
    proof (cases a)
      case (Connect sv)
      with nc co show ?thesis
        by (auto simp: connect_def collaborator_defs Let_def disconnect_fields
              split: option.splits if_splits)
    next
      case Disconnect
      with co show ?thesis by (simp add: disconnect_fields)
    next
      case (Receive s' p)
      show ?thesis
      proof (cases p)
        case (Hello v' n')
        with Receive nc co show ?thesis
          by (auto simp: receive_def handleHelloPacket_def split: option.splits handler.splits if_splits)
      next
        case (Message m)
        have "connected (snd (handleMessage env s' m c)) = connected c \<or> \<not> connected (snd (handleMessage env s' m c))"
          using sameConn_handleMessage [of m c env s']
          by (cases "m = MsgSuperKill") (auto simp: sameConn_def onMsgSuperKill_def disconnect_fields)
        with Message Receive nc co show ?thesis
          by (auto simp: receive_def split: option.splits handler.splits if_splits)
      qed
    qed
  qed
  from A B C show ?thesis by blast
qed

theorem handshake_sets_connected_witness:
  "reachable scenario_env scenario_connecting \<and>
   fst (connect scenario_env (Some ''other.example.org'') scenario_connecting) = None \<and>
   \<not> connected (snd (connect scenario_env (Some ''other.example.org'') scenario_connecting)) \<and>
   0 \<in> set (sources (eventLoop scenario_connecting)) \<and>
   handler (heap scenario_connecting ! 0) = Some HandleHelloPacket \<and>
   \<not> connected scenario_connecting \<and>
   step scenario_env (Receive 0 (Hello ''0.9'' 7)) scenario_connecting =
     (Some (ProtocolError
        (''Protocol version mismatch: The server is version '' @ [CHR 0x27] @ ''0.9'' @
         [CHR 0x27] @ '', this client is version '' @ [CHR 0x27] @ ''1.0'' @ [CHR 0x27] @
         ''.'')),
      scenario_connecting) \<and>
   connected (snd (step scenario_env (Receive 0 (Hello ''1.0'' 7)) scenario_connecting))"
proof -
  have pv: "protocolVersion scenario_env = ''1.0''"
    by (simp add: scenario_env_def)
  have ok: "fst (connect scenario_env (Some ''other.example.org'') scenario_connecting) = None"
    by (simp add: connect_def scenario_env_def Let_def)
  have f: "0 \<in> set (sources (eventLoop scenario_connecting))"
    "handler (heap scenario_connecting ! 0) = Some HandleHelloPacket"
    "\<not> connected scenario_connecting"
    by (simp_all add: scenario_connecting_eq)
  show ?thesis
    using reachable_scenario_connecting f ok pv
      handshake_sets_connected [OF reachable_scenario_connecting,
        of "Some ''other.example.org''" 0 "''0.9''" 7 "Receive 0 (Hello ''1.0'' 7)"]
      handshake_sets_connected [OF reachable_scenario_connecting,
        of "Some ''other.example.org''" 0 "''1.0''" 7 "Receive 0 (Hello ''1.0'' 7)"]
    by simp
qed

subsection \<open>Negotiating flags\<close>

text \<open>What a step writes, and whether a world-hash request is in it.\<close>

lemma disconnect_wire: "wire (snd (disconnect c)) = wire c"
  by (simp add: disconnect_def onDisconnect_def collaborator_defs Let_def split: option.splits)

lemma connect_wire: "wire (snd (connect env server c)) = wire c"
  by (simp add: connect_def collaborator_defs Let_def disconnect_wire split: option.splits)

lemma hello_wire:
  "take (length (wire c)) (wire (snd (handleHelloPacket env s v n c))) = wire c \<and>
   OutWantWHash \<notin> snd ` set (drop (length (wire c)) (wire (snd (handleHelloPacket env s v n c))))"
  by (simp add: handleHelloPacket_def onConnect_def negotiateFlags_def collaborator_defs
        split: option.splits)

lemma message_wire:
  "take (length (wire c)) (wire (snd (handleMessage env s m c))) = wire c \<and>
   (OutWantWHash \<in> snd ` set (drop (length (wire c)) (wire (snd (handleMessage env s m c)))) \<longrightarrow>
      (\<exists>d. m = MsgNegotiateFlags d \<and> splitAbbreviations env d = []))"
  by (cases m)
     (auto simp: onMsgSuperKill_def disconnect_wire onMsgLagPing_def onMsgNegotiateFlags_def
        onNegotiateFlags_def getWorldHash_def onMsgWantWHash_def downloadWorld_def
        onMsgGetWorld_def onMsgAddPlayer_def onMsgRemovePlayer_def onMsgPlayerUpdate_def
        onMsgFlagUpdate_def onMsgGrabFlag_def onMsgDropFlag_def updateFlag_def
        collaborator_defs Let_def
        split: option.splits prod.splits sum.splits if_splits)

lemma step_wire:
  "take (length (wire c)) (wire (snd (step env a c))) = wire c \<and>
   (OutWantWHash \<in> snd ` set (drop (length (wire c)) (wire (snd (step env a c)))) \<longrightarrow>
      (\<exists>s d. a = Receive s (Message (MsgNegotiateFlags d)) \<and> splitAbbreviations env d = []))"
proof (cases a)
  case (Connect server)
  then show ?thesis by (simp add: connect_wire)
next
  case Disconnect
  then show ?thesis by (simp add: disconnect_wire)
next
  case (Receive s p)
  show ?thesis
  proof (cases p)
    case (Hello v n)
    with Receive hello_wire [of c env s v n] show ?thesis
      by (auto simp: receive_def split: option.splits handler.splits)
  next
    case (Message m)
    with Receive message_wire [of c env s m] show ?thesis
      by (auto simp: receive_def split: option.splits handler.splits)
  qed
qed

text \<open>
  C3. The handler of the server's negotiate-flags response: when the response splits into
  a non-empty list of unknown abbreviations, a ProtocolError is raised whose message
  ends in those abbreviations, all of them, in their order, separated by a comma and a
  space, and the client is left as it was, so nothing is sent, the world-hash request
  included; when the list is empty and the client has its socket, the flags-negotiated
  notification is emitted and exactly one world-hash request is written to that socket.
  And whatever the client does or receives, a step only adds to what was written, and
  adds a world-hash request only when it is the receipt of a negotiate-flags response
  with an empty list.
\<close>

theorem negotiate_flags_response:
  "(splitAbbreviations env d = u # us \<longrightarrow>
      onMsgNegotiateFlags env d c =
        (Some (ProtocolError
           (''Server knows about the following flags that we don'' @ [CHR 0x27] @ ''t: '' @
            u @ concat (map (\<lambda>x. '', '' @ x) us))), c)) \<and>
   (splitAbbreviations env d = [] \<longrightarrow> tcp c = Some s \<longrightarrow>
      onMsgNegotiateFlags env d c =
        (None, c\<lparr>wire := wire c @ [(s, OutWantWHash)],
                 events := events c @ [OnNegotiateFlags]\<rparr>)) \<and>
   take (length (wire c)) (wire (snd (step env a c))) = wire c \<and>
   (OutWantWHash \<in> snd ` set (drop (length (wire c)) (wire (snd (step env a c)))) \<longrightarrow>
      (\<exists>s' d'. a = Receive s' (Message (MsgNegotiateFlags d')) \<and>
               splitAbbreviations env d' = []))"
proof -
  have A: "splitAbbreviations env d = u # us \<longrightarrow>
      onMsgNegotiateFlags env d c =
        (Some (ProtocolError
           (''Server knows about the following flags that we don'' @ [CHR 0x27] @ ''t: '' @
            u @ concat (map (\<lambda>x. '', '' @ x) us))), c)"
    by (simp add: onMsgNegotiateFlags_def unknownFlagsMessage_def quote_def join_Cons Let_def)
  have B: "splitAbbreviations env d = [] \<longrightarrow> tcp c = Some s \<longrightarrow>
      onMsgNegotiateFlags env d c =
        (None, c\<lparr>wire := wire c @ [(s, OutWantWHash)],
                 events := events c @ [OnNegotiateFlags]\<rparr>)"
    by (simp add: onMsgNegotiateFlags_def onNegotiateFlags_def getWorldHash_def
          tcpWrite_def emit_def Let_def)
  from A B step_wire [of c env a] show ?thesis by blast
qed

theorem negotiate_flags_response_witness:
  "splitAbbreviations scenario_env ''CDE'' = [''C'', ''D'', ''E''] \<and>
   onMsgNegotiateFlags scenario_env ''CDE'' scenario_downloading =
     (Some (ProtocolError
        (''Server knows about the following flags that we don'' @ [CHR 0x27] @
         ''t: C, D, E'')),
      scenario_downloading) \<and>
   splitAbbreviations scenario_env [] = [] \<and> tcp scenario_connecting = Some 0 \<and>
   onMsgNegotiateFlags scenario_env [] scenario_connecting =
     (None, scenario_connecting\<lparr>wire := wire scenario_connecting @ [(0, OutWantWHash)],
              events := events scenario_connecting @ [OnNegotiateFlags]\<rparr>) \<and>
   OutWantWHash \<in> snd ` set (drop (length (wire scenario_download_started))
      (wire (snd (step scenario_env (Receive 0 (Message (MsgNegotiateFlags [])))
                    scenario_download_started)))) \<and>
   OutWantWHash \<notin> snd ` set (drop (length (wire scenario_download_started))
      (wire (snd (step scenario_env (Receive 0 (Message (MsgNegotiateFlags ''CDE'')))
                    scenario_download_started))))"
proof -
  have a: "splitAbbreviations scenario_env ''CDE'' = [''C'', ''D'', ''E'']"
    and b: "splitAbbreviations scenario_env [] = []"
    by (simp_all add: scenario_env_def)
  have t: "tcp scenario_connecting = Some 0"
    by (simp add: scenario_connecting_eq)
  have w: "OutWantWHash \<in> snd ` set (drop (length (wire scenario_download_started))
      (wire (snd (step scenario_env (Receive 0 (Message (MsgNegotiateFlags [])))
                    scenario_download_started))))"
    by (simp add: scenario_download_started_eq receive_def onMsgNegotiateFlags_def
          onNegotiateFlags_def getWorldHash_def tcpWrite_def emit_def b)
  show ?thesis
    using a b t w
      negotiate_flags_response [where env = scenario_env and d = "''CDE''" and u = "''C''"
        and us = "[''D'', ''E'']" and c = scenario_downloading and s = 0
        and a = "Receive 0 (Message (MsgNegotiateFlags ''CDE''))"]
      negotiate_flags_response [where env = scenario_env and d = "[]"
        and c = scenario_connecting and s = 0
        and a = "Receive 0 (Message (MsgNegotiateFlags []))"]
      negotiate_flags_response [where env = scenario_env and c = scenario_download_started
        and a = "Receive 0 (Message (MsgNegotiateFlags ''CDE''))"]
      negotiate_flags_response [where env = scenario_env and c = scenario_download_started
        and a = "Receive 0 (Message (MsgNegotiateFlags []))" and d = "[]" and s = 0]
    by (auto simp del: step.simps)
qed

subsection \<open>The world hash\<close>

text \<open>
  C4. The handler of the world-hash response: afterwards caching is enabled exactly when
  the lifetime is permanent. When the lifetime is permanent and the cache holds a blob
  under the received hash (and the decoder accepts it), the world is decoded from that
  blob and the world-loaded notification is emitted, with nothing written to the socket.
  Otherwise, for a client that has its socket, the download-started notification is
  emitted, the transfer buffer is the empty string and one chunk request at offset 0 is
  written.
\<close>

theorem world_hash_response:
  "(worldCache (snd (onMsgWantWHash env lifetime h c)) \<longleftrightarrow> lifetime = ''permanent'') \<and>
   (lifetime = ''permanent'' \<longrightarrow> cacheStore c h = Some blob \<longrightarrow>
    loadBinary env (world (game c)) blob = (None, w) \<longrightarrow>
      onMsgWantWHash env lifetime h c =
        (None, c\<lparr>game := (game c)\<lparr>world := w\<rparr>, worldCache := True, worldHash := Some h,
                 events := events c @ [OnLoadWorld]\<rparr>)) \<and>
   (lifetime \<noteq> ''permanent'' \<or> cacheStore c h = None \<longrightarrow> tcp c = Some s \<longrightarrow>
      onMsgWantWHash env lifetime h c =
        (None, c\<lparr>worldCache := (lifetime = ''permanent''), worldHash := Some h,
                 binaryWorld := Some [], wire := wire c @ [(s, OutGetWorld 0)],
                 events := events c @ [OnStartWorldDownload]\<rparr>))"
  by (auto simp: onMsgWantWHash_def downloadWorld_def collaborator_defs Let_def
           split: option.splits prod.splits)

theorem world_hash_response_witness:
  "cacheStore (scenario_connecting\<lparr>cacheStore := [''abc123'' \<mapsto> ''AAAABB'']\<rparr>) ''abc123'' =
     Some ''AAAABB'' \<and>
   loadBinary scenario_env [] ''AAAABB'' = (None, ''AAAABB'') \<and>
   onMsgWantWHash scenario_env ''permanent'' ''abc123''
       (scenario_connecting\<lparr>cacheStore := [''abc123'' \<mapsto> ''AAAABB'']\<rparr>) =
     (None, scenario_connecting
        \<lparr>game := \<lparr>players = Map.empty, flags = Map.empty, world = ''AAAABB''\<rparr>,
         worldCache := True, cacheStore := [''abc123'' \<mapsto> ''AAAABB''],
         worldHash := Some ''abc123'', events := [OnLoadWorld]\<rparr>) \<and>
   cacheStore scenario_connecting ''abc123'' = None \<and> tcp scenario_connecting = Some 0 \<and>
   onMsgWantWHash scenario_env ''permanent'' ''abc123'' scenario_connecting =
     (None, scenario_connecting
        \<lparr>worldCache := True, worldHash := Some ''abc123'', binaryWorld := Some [],
         wire := [(0, OutGetWorld 0)], events := [OnStartWorldDownload]\<rparr>) \<and>
   onMsgWantWHash scenario_env ''temporary'' ''abc123''
       (scenario_connecting\<lparr>cacheStore := [''abc123'' \<mapsto> ''AAAABB'']\<rparr>) =
     (None, scenario_connecting
        \<lparr>worldCache := False, cacheStore := [''abc123'' \<mapsto> ''AAAABB''],
         worldHash := Some ''abc123'', binaryWorld := Some [],
         wire := [(0, OutGetWorld 0)], events := [OnStartWorldDownload]\<rparr>)"
proof -
  let ?c = "scenario_connecting\<lparr>cacheStore := [''abc123'' \<mapsto> ''AAAABB'']\<rparr>"
  have l: "loadBinary scenario_env (world (game ?c)) ''AAAABB'' = (None, ''AAAABB'')"
    by (simp add: scenario_env_def)
  show ?thesis
    using l
      world_hash_response [of scenario_env "''permanent''" "''abc123''" ?c "''AAAABB''"
        "''AAAABB''" 0]
      world_hash_response [of scenario_env "''permanent''" "''abc123''" scenario_connecting
        "''AAAABB''" "''AAAABB''" 0]
      world_hash_response [of scenario_env "''temporary''" "''abc123''" ?c "''AAAABB''"
        "''AAAABB''" 0]
    by (simp add: scenario_connecting_eq scenario_env_def)
qed

subsection \<open>Downloading the world\<close>

lemma run_append:
  "run env (as @ bs) c =
     (case run env as c of (None, c') \<Rightarrow> run env bs c' | (Some e, c') \<Rightarrow> (Some e, c'))"
  by (induction as arbitrary: c) (auto split: prod.splits option.splits)

lemma receive_chunk_more:
  assumes "tcp c = Some s" "s \<in> set (sources (eventLoop c))" "s < length (heap c)"
    "handler (heap c ! s) = Some HandleMessage" "binaryWorld c = Some b" "r \<noteq> 0"
  shows "step env (Receive s (Message (MsgGetWorld d r))) c =
     (None, c\<lparr>binaryWorld := Some (b @ d),
              wire := wire c @ [(s, OutGetWorld (length b + length d))]\<rparr>)"
  using assms by (simp add: receive_def onMsgGetWorld_def tcpWrite_def Let_def)

lemma receive_chunk_last:
  assumes "s \<in> set (sources (eventLoop c))" "s < length (heap c)"
    "handler (heap c ! s) = Some HandleMessage" "binaryWorld c = Some b"
    "worldCache c \<longrightarrow> worldHash c = Some h"
    "loadBinary env (world (game c)) (b @ d) = (None, w)"
  shows "step env (Receive s (Message (MsgGetWorld d 0))) c =
     (None, c\<lparr>game := (game c)\<lparr>world := w\<rparr>,
              cacheStore := (if worldCache c then (cacheStore c)(h \<mapsto> b @ d) else cacheStore c),
              binaryWorld := None, worldDownloaded := True,
              events := events c @ [OnLoadWorld]\<rparr>)"
  using assms
  by (auto simp: receive_def onMsgGetWorld_def storeWorld_def emit_def Let_def)

lemma run_chunks:
  assumes "tcp c = Some s" "s \<in> set (sources (eventLoop c))" "s < length (heap c)"
    "handler (heap c ! s) = Some HandleMessage" "binaryWorld c = Some b"
    "\<forall>m \<in> set ms. snd m \<noteq> 0"
  shows "run env (map (\<lambda>m. Receive s (Message (MsgGetWorld (fst m) (snd m)))) ms) c =
     (None, c\<lparr>binaryWorld := Some (b @ concat (map fst ms)),
              wire := wire c @
                map (\<lambda>k. (s, OutGetWorld (length b + length (concat (map fst (take (Suc k) ms))))))
                  [0..<length ms]\<rparr>)"
  using assms
proof (induction ms arbitrary: c b)
  case Nil
  then show ?case by simp
next
  case (Cons m ms)
  let ?c1 = "c\<lparr>binaryWorld := Some (b @ fst m),
              wire := wire c @ [(s, OutGetWorld (length b + length (fst m)))]\<rparr>"
  have st: "step env (Receive s (Message (MsgGetWorld (fst m) (snd m)))) c = (None, ?c1)"
    using Cons.prems by (intro receive_chunk_more) simp_all
  have ih: "run env (map (\<lambda>m. Receive s (Message (MsgGetWorld (fst m) (snd m)))) ms) ?c1 =
     (None, ?c1\<lparr>binaryWorld := Some ((b @ fst m) @ concat (map fst ms)),
              wire := wire ?c1 @
                map (\<lambda>k. (s, OutGetWorld (length (b @ fst m) +
                       length (concat (map fst (take (Suc k) ms))))))
                  [0..<length ms]\<rparr>)"
    using Cons.prems by (intro Cons.IH) simp_all
  show ?case
    using st ih by (simp add: map_upt_Suc del: upt_Suc)
qed

text \<open>
  C1. A download that has started (the buffer is empty, the socket's handler is the
  message dispatch) and receives chunks that each say more data remains: after them the
  buffer is the concatenation of their payloads, so its length is the sum of their
  lengths, and the request that follows the k-th chunk carries the length the buffer
  had after that chunk as its offset. When a last chunk with nothing remaining follows
  (and the decoder accepts the data), the whole buffer is stored under the world hash
  if caching is enabled, the world is decoded from it, the buffer is deleted and the
  world-loaded notification is emitted.
\<close>

theorem world_download_chunks:
  assumes "tcp c = Some s" "s \<in> set (sources (eventLoop c))" "s < length (heap c)"
    "handler (heap c ! s) = Some HandleMessage" "binaryWorld c = Some []"
    "\<forall>m \<in> set ms. snd m \<noteq> 0"
  shows "run env (map (\<lambda>m. Receive s (Message (MsgGetWorld (fst m) (snd m)))) ms) c =
       (None, c\<lparr>binaryWorld := Some (concat (map fst ms)),
                wire := wire c @
                  map (\<lambda>k. (s, OutGetWorld (length (concat (map fst (take (Suc k) ms))))))
                    [0..<length ms]\<rparr>) \<and>
     length (concat (map fst ms)) = sum_list (map (\<lambda>m. length (fst m)) ms) \<and>
     ((worldCache c \<longrightarrow> worldHash c = Some h) \<longrightarrow>
      loadBinary env (world (game c)) (concat (map fst ms) @ d) = (None, w) \<longrightarrow>
        run env (map (\<lambda>m. Receive s (Message (MsgGetWorld (fst m) (snd m)))) (ms @ [(d, 0)])) c =
          (None, c\<lparr>game := (game c)\<lparr>world := w\<rparr>,
                   cacheStore := (if worldCache c
                                  then (cacheStore c)(h \<mapsto> concat (map fst ms) @ d)
                                  else cacheStore c),
                   binaryWorld := None, worldDownloaded := True,
                   wire := wire c @
                     map (\<lambda>k. (s, OutGetWorld (length (concat (map fst (take (Suc k) ms))))))
                       [0..<length ms],
                   events := events c @ [OnLoadWorld]\<rparr>))"
proof -
  let ?acts = "map (\<lambda>m. Receive s (Message (MsgGetWorld (fst m) (snd m)))) ms"
  let ?c' = "c\<lparr>binaryWorld := Some (concat (map fst ms)),
                wire := wire c @
                  map (\<lambda>k. (s, OutGetWorld (length (concat (map fst (take (Suc k) ms))))))
                    [0..<length ms]\<rparr>"
  have A: "run env ?acts c = (None, ?c')"
    using run_chunks [OF assms, of env] by simp
  have B: "length (concat (map fst ms)) = sum_list (map (\<lambda>m. length (fst m)) ms)"
    by (simp add: length_concat comp_def)
  have C: "run env (map (\<lambda>m. Receive s (Message (MsgGetWorld (fst m) (snd m)))) (ms @ [(d, 0)])) c =
          (None, c\<lparr>game := (game c)\<lparr>world := w\<rparr>,
                   cacheStore := (if worldCache c
                                  then (cacheStore c)(h \<mapsto> concat (map fst ms) @ d)
                                  else cacheStore c),
                   binaryWorld := None, worldDownloaded := True,
                   wire := wire c @
                     map (\<lambda>k. (s, OutGetWorld (length (concat (map fst (take (Suc k) ms))))))
                       [0..<length ms],
                   events := events c @ [OnLoadWorld]\<rparr>)"
    if h: "worldCache c \<longrightarrow> worldHash c = Some h"
      and l: "loadBinary env (world (game c)) (concat (map fst ms) @ d) = (None, w)"
  proof -
    have "step env (Receive s (Message (MsgGetWorld d 0))) ?c' =
       (None, ?c'\<lparr>game := (game ?c')\<lparr>world := w\<rparr>,
              cacheStore := (if worldCache ?c'
                 then (cacheStore ?c')(h \<mapsto> concat (map fst ms) @ d) else cacheStore ?c'),
              binaryWorld := None, worldDownloaded := True,
              events := events ?c' @ [OnLoadWorld]\<rparr>)"
      using assms h l by (intro receive_chunk_last) simp_all
    then show ?thesis
      using A by (simp add: run_append)
  qed
  from A B C show ?thesis by blast
qed

theorem world_download_chunks_witness:
  "tcp scenario_download_started = Some 0 \<and>
   0 \<in> set (sources (eventLoop scenario_download_started)) \<and>
   0 < length (heap scenario_download_started) \<and>
   handler (heap scenario_download_started ! 0) = Some HandleMessage \<and>
   binaryWorld scenario_download_started = Some [] \<and>
   snd (''AAAA'', 2::nat) \<noteq> 0 \<and>
   worldHash scenario_download_started = Some ''abc123'' \<and>
   loadBinary scenario_env (world (game scenario_download_started)) ''AAAABB'' =
     (None, ''AAAABB'') \<and>
   run scenario_env [Receive 0 (Message (MsgGetWorld ''AAAA'' 2))] scenario_download_started =
     (None, scenario_download_started
        \<lparr>binaryWorld := Some ''AAAA'',
         wire := wire scenario_download_started @ [(0, OutGetWorld 4)]\<rparr>) \<and>
   run scenario_env
       [Receive 0 (Message (MsgGetWorld ''AAAA'' 2)), Receive 0 (Message (MsgGetWorld ''BB'' 0))]
       scenario_download_started =
     (None, scenario_download_started
        \<lparr>game := \<lparr>players = Map.empty, flags = Map.empty, world = ''AAAABB''\<rparr>,
         cacheStore := [''abc123'' \<mapsto> ''AAAABB''],
         binaryWorld := None, worldDownloaded := True,
         wire := wire scenario_download_started @ [(0, OutGetWorld 4)],
         events := events scenario_download_started @ [OnLoadWorld]\<rparr>)"
proof -
  have h1: "tcp scenario_download_started = Some 0"
    and h2: "0 \<in> set (sources (eventLoop scenario_download_started))"
    and h3: "0 < length (heap scenario_download_started)"
    and h4: "handler (heap scenario_download_started ! 0) = Some HandleMessage"
    and h5: "binaryWorld scenario_download_started = Some []"
    by (simp_all add: scenario_download_started_eq)
  have h6: "\<forall>m \<in> set [(''AAAA'', 2::nat)]. snd m \<noteq> 0"
    by simp
  have h7: "worldHash scenario_download_started = Some ''abc123''"
    and h8: "worldCache scenario_download_started"
    and h9: "game scenario_download_started =
       \<lparr>players = Map.empty, flags = Map.empty, world = []\<rparr>"
    and h10: "cacheStore scenario_download_started = Map.empty"
    by (simp_all add: scenario_download_started_eq)
  have l: "loadBinary scenario_env (world (game scenario_download_started)) ''AAAABB'' =
     (None, ''AAAABB'')"
    by (simp add: scenario_env_def)
  show ?thesis
    using h1 h2 h3 h4 h5 h6 h7 h8 h9 h10 l
      world_download_chunks [OF h1 h2 h3 h4 h5 h6, where h = "''abc123''"
        and env = scenario_env and d = "''BB''" and w = "''AAAABB''"]
    by (simp del: run.simps)
qed

subsection \<open>Connecting without a server\<close>

text \<open>
  C6, as the claim states it, fails: with no server given, connect raises a
  NetworkException, not a ConfigurationError.
\<close>

theorem connect_without_server_counterexample:
  "\<not> (case fst (connect scenario_env None scenario_init) of
        Some e \<Rightarrow> is_ConfigurationError e | None \<Rightarrow> False)"
  by (simp add: connect_def)

text \<open>
  C6, amended. Every call of connect with no server or with the empty string raises
  NetworkException "A server must be specified" to its caller and leaves the client as
  it was: no socket is made.
\<close>

theorem connect_without_server:
  "server = None \<or> server = Some [] \<Longrightarrow>
     connect env server c = (Some (NetworkException ''A server must be specified''), c)"
  by (auto simp: connect_def)

theorem connect_without_server_witness:
  "connect scenario_env (Some []) scenario_downloading =
     (Some (NetworkException ''A server must be specified''), scenario_downloading) \<and>
   heap (snd (connect scenario_env (Some []) scenario_downloading)) = heap scenario_downloading"
  using connect_without_server [of "Some []" scenario_env scenario_downloading] by simp

subsection \<open>Updates for unknown ids\<close>

text \<open>
  What \<^verbatim>\<open>updateFlag\<close> does with an id that is not a key of the flag dictionary: a
  numeric id gives the ProtocolWarning with flag number and id in its message; an
  abbreviation makes the formatting of that message raise TypeError. Either way the
  client is left as it was.
\<close>

lemma updateFlag_unknown_id:
  "fid \<notin> set (map fst (flagDict env)) \<Longrightarrow>
     updateFlag env n fid d c =
       (case fid of
          PyInt k \<Rightarrow>
            (Some (ProtocolWarning
               (''Can'' @ [CHR 0x27] @ ''t update flag number '' @ str_int n @
                '' with unknown ID '' @ str_int k)), c)
        | PyStr a \<Rightarrow> (Some (TypeError ''%d format: a number is required, not str''), c))"
proof -
  assume "fid \<notin> set (map fst (flagDict env))"
  then have "map_of (flagDict env) fid = None"
    by (simp add: map_of_eq_None_iff)
  then show ?thesis
    by (simp add: updateFlag_def unknownIdMessage_def formatD_def quote_def split: pyval.splits)
qed

text \<open>
  C7 fails on the code. The keys of the flag dictionary are the abbreviations that
  negotiateFlags joins, and a flag-update, grab-flag or drop-flag message whose id is an
  abbreviation that is not among them raises TypeError, not a ProtocolWarning: the
  message of the warning is formatted with a number format. No flag of the game is
  changed. With a numeric id the warning is raised, naming flag number and id.
\<close>

theorem flag_update_unknown_id:
  "PyStr ''XX'' \<notin> set (map fst (flagDict scenario_env)) \<and>
   handleMessage scenario_env 0 (MsgFlagUpdate 3 (PyStr ''XX'') ''x'') scenario_downloading =
     (Some (TypeError ''%d format: a number is required, not str''), scenario_downloading) \<and>
   handleMessage scenario_env 0 (MsgGrabFlag 3 (PyStr ''XX'') ''x'') scenario_downloading =
     (Some (TypeError ''%d format: a number is required, not str''), scenario_downloading) \<and>
   handleMessage scenario_env 0 (MsgDropFlag 3 (PyStr ''XX'') ''x'') scenario_downloading =
     (Some (TypeError ''%d format: a number is required, not str''), scenario_downloading) \<and>
   handleMessage scenario_env 0 (MsgFlagUpdate 3 (PyInt (- 42)) ''x'') scenario_downloading =
     (Some (ProtocolWarning
        (''Can'' @ [CHR 0x27] @ ''t update flag number 3 with unknown ID -42'')),
      scenario_downloading)"
proof -
  have k: "PyStr ''XX'' \<notin> set (map fst (flagDict scenario_env))"
    "PyInt (- 42) \<notin> set (map fst (flagDict scenario_env))"
    by (simp_all add: scenario_env_def)
  show ?thesis
    using k updateFlag_unknown_id [OF k(1), of 3 "''x''" scenario_downloading]
      updateFlag_unknown_id [OF k(2), of 3 "''x''" scenario_downloading]
    by (simp add: onMsgFlagUpdate_def onMsgGrabFlag_def onMsgDropFlag_def str_int_examples)
qed

text \<open>
  C8. A player-update message for an id that the game's player mapping does not hold
  raises nothing and leaves the client, the game included, as it was.
\<close>

theorem player_update_unknown_id:
  "players (game c) i = None \<Longrightarrow>
     onMsgPlayerUpdate i d c = (None, c) \<and>
     handleMessage env s (MsgPlayerUpdate i d) c = (None, c)"
  by (simp add: onMsgPlayerUpdate_def)

theorem player_update_unknown_id_witness:
  "players (game scenario_init) 5 = None \<and>
   onMsgPlayerUpdate 5 ''moved'' scenario_init = (None, scenario_init) \<and>
   handleMessage scenario_env 0 (MsgPlayerUpdate 5 ''moved'') scenario_init = (None, scenario_init)"
proof -
  have h: "players (game scenario_init) 5 = None"
    by (simp add: scenario_init_def init_def)
  show ?thesis
    using h player_update_unknown_id [OF h, of "''moved''" scenario_env 0] by simp
qed

subsection \<open>Disconnecting\<close>

text \<open>
  C9. A disconnect of a client without a socket, in any state the client can reach,
  raises nothing and changes nothing but the event loop, which the notification's
  handler stops, and the list of emitted notifications, which gains the disconnect
  notification; and in any state at all, a second disconnect right after a first raises
  nothing and only emits the notification again.
\<close>

theorem disconnect_idempotent:
  "(reachable env c \<longrightarrow> tcp c = None \<longrightarrow>
      disconnect c =
        (None, c\<lparr>eventLoop := loopStop (eventLoop c), events := events c @ [OnDisconnect]\<rparr>)) \<and>
   disconnect (snd (disconnect c)) =
     (None, (snd (disconnect c))\<lparr>events := events (snd (disconnect c)) @ [OnDisconnect]\<rparr>)"
proof
  show "reachable env c \<longrightarrow> tcp c = None \<longrightarrow>
      disconnect c =
        (None, c\<lparr>eventLoop := loopStop (eventLoop c), events := events c @ [OnDisconnect]\<rparr>)"
  proof (intro impI)
    assume "reachable env c" and t: "tcp c = None"
    then have "connInv c" by (simp add: reachable_connInv)
    with t have "udp c = None" "multicast c = None" "\<not> connected c"
      by (simp_all add: connInv_def)
    with t show "disconnect c =
        (None, c\<lparr>eventLoop := loopStop (eventLoop c), events := events c @ [OnDisconnect]\<rparr>)"
      by (simp add: disconnect_def onDisconnect_def collaborator_defs Let_def)
  qed
next
  show "disconnect (snd (disconnect c)) =
     (None, (snd (disconnect c))\<lparr>events := events (snd (disconnect c)) @ [OnDisconnect]\<rparr>)"
    by (simp add: disconnect_def onDisconnect_def collaborator_defs Let_def
          split: option.splits)
qed

theorem disconnect_idempotent_witness:
  "reachable scenario_env scenario_init \<and> tcp scenario_init = None \<and>
   disconnect scenario_init =
     (None, scenario_init\<lparr>eventLoop := \<lparr>sources = [], running = False\<rparr>,
                           events := [OnDisconnect]\<rparr>) \<and>
   disconnect (snd (disconnect scenario_downloading)) =
     (None, (snd (disconnect scenario_downloading))
        \<lparr>events := [OnConnect, OnNegotiateFlags, OnStartWorldDownload, OnDisconnect,
                     OnDisconnect]\<rparr>)"
proof -
  have r: "reachable scenario_env scenario_init"
    unfolding scenario_init_def by (rule reachable_init)
  have t: "tcp scenario_init = None"
    by (simp add: scenario_init_def init_def)
  have e: "events (snd (disconnect scenario_downloading)) =
      [OnConnect, OnNegotiateFlags, OnStartWorldDownload, OnDisconnect]"
    by (simp add: scenario_downloading_eq disconnect_def onDisconnect_def collaborator_defs)
  show ?thesis
    using r t e disconnect_idempotent [of scenario_env scenario_init]
      disconnect_idempotent [of scenario_env scenario_downloading]
    by (simp add: scenario_init_def init_def loopStop_def)
qed

text \<open>
  C10. Every call of disconnect, in any state, raises nothing, emits the disconnect
  notification and leaves the event loop stopped; on a client that never connected this
  is all it does.
\<close>

theorem disconnect_stops_event_loop:
  "fst (disconnect c) = None \<and>
   events (snd (disconnect c)) = events c @ [OnDisconnect] \<and>
   \<not> running (eventLoop (snd (disconnect c))) \<and>
   disconnect (init w store) =
     (None, (init w store)\<lparr>eventLoop := \<lparr>sources = [], running = False\<rparr>,
                            events := [OnDisconnect]\<rparr>)"
  by (simp add: disconnect_def onDisconnect_def init_def collaborator_defs Let_def
           split: option.splits)

subsection \<open>Disconnecting during a download\<close>

lemma disconnect_keeps:
  "fst (disconnect c) = None"
  "binaryWorld (snd (disconnect c)) = binaryWorld c"
  "cacheStore (snd (disconnect c)) = cacheStore c"
  "game (snd (disconnect c)) = game c"
  "wire (snd (disconnect c)) = wire c"
  by (simp_all add: disconnect_def onDisconnect_def collaborator_defs Let_def
        split: option.splits)

lemma disconnect_closes:
  "tcp c = Some s \<Longrightarrow> udp c = None \<Longrightarrow> s < length (heap c) \<Longrightarrow>
     closed (heap (snd (disconnect c)) ! s)"
  by (simp add: disconnect_def onDisconnect_def collaborator_defs Let_def)

lemma receive_unregistered:
  "sources (eventLoop c) = [] \<Longrightarrow> receive env s p c = (None, c)"
  by (simp add: receive_def)

lemma run_disconnect: "run env (Disconnect # as) c = run env as (snd (disconnect c))"
  by (simp add: disconnect_def Let_def)

lemma fresh_download:
  assumes "tcp c = None" "a \<noteq> []" "socketConnect env a (defaultPort env) = None"
    "splitAbbreviations env d = []" "lifetime \<noteq> ''permanent'' \<or> cacheStore c h = None"
  shows "fst (run env
            [Connect (Some a),
             Receive (length (heap c)) (Hello (protocolVersion env) n),
             Receive (length (heap c)) (Message (MsgNegotiateFlags d)),
             Receive (length (heap c)) (Message (MsgWantWHash lifetime h))] c) = None \<and>
     binaryWorld (snd (run env
            [Connect (Some a),
             Receive (length (heap c)) (Hello (protocolVersion env) n),
             Receive (length (heap c)) (Message (MsgNegotiateFlags d)),
             Receive (length (heap c)) (Message (MsgWantWHash lifetime h))] c)) = Some [] \<and>
     wire (snd (run env
            [Connect (Some a),
             Receive (length (heap c)) (Hello (protocolVersion env) n),
             Receive (length (heap c)) (Message (MsgNegotiateFlags d)),
             Receive (length (heap c)) (Message (MsgWantWHash lifetime h))] c)) =
       wire c @
         [(length (heap c), OutNegotiateFlags (joinAbbreviations env (map fst (flagDict env)))),
          (length (heap c), OutWantWHash),
          (length (heap c), OutGetWorld 0)]"
proof -
  let ?k = "length (heap c)"
  let ?c2 = "c\<lparr>heap := heap c @ [\<lparr>peer = Some (a, defaultPort env),
                                    handler = Some HandleHelloPacket, closed = False\<rparr>],
               tcp := Some ?k,
               eventLoop := (eventLoop c)\<lparr>sources := sources (eventLoop c) @ [?k]\<rparr>,
               multicast := Some ?k\<rparr>"
  have s1: "step env (Connect (Some a)) c = (None, ?c2)"
    using assms(1-3) by (simp add: connect_def collaborator_defs Let_def)
  let ?c3 = "?c2\<lparr>clientId := Some n, connected := True,
                  heap := heap c @ [\<lparr>peer = Some (a, defaultPort env),
                                    handler = Some HandleMessage, closed = False\<rparr>],
                  wire := wire c @ [(?k, OutNegotiateFlags
                                      (joinAbbreviations env (map fst (flagDict env))))],
                  events := events c @ [OnConnect]\<rparr>"
  have s2: "step env (Receive ?k (Hello (protocolVersion env) n)) ?c2 = (None, ?c3)"
    by (simp add: receive_def handleHelloPacket_def onConnect_def negotiateFlags_def
          collaborator_defs)
  let ?c4 = "?c3\<lparr>wire := wire ?c3 @ [(?k, OutWantWHash)],
                  events := events ?c3 @ [OnNegotiateFlags]\<rparr>"
  have s3: "step env (Receive ?k (Message (MsgNegotiateFlags d))) ?c3 = (None, ?c4)"
    using assms(4)
    by (simp add: receive_def onMsgNegotiateFlags_def onNegotiateFlags_def getWorldHash_def
          collaborator_defs)
  let ?c5 = "?c4\<lparr>worldCache := (lifetime = ''permanent''), worldHash := Some h,
                  binaryWorld := Some [], wire := wire ?c4 @ [(?k, OutGetWorld 0)],
                  events := events ?c4 @ [OnStartWorldDownload]\<rparr>"
  have s4: "step env (Receive ?k (Message (MsgWantWHash lifetime h))) ?c4 = (None, ?c5)"
    using assms(5)
    by (auto simp: receive_def onMsgWantWHash_def downloadWorld_def collaborator_defs)
  have "run env
            [Connect (Some a),
             Receive ?k (Hello (protocolVersion env) n),
             Receive ?k (Message (MsgNegotiateFlags d)),
             Receive ?k (Message (MsgWantWHash lifetime h))] c = (None, ?c5)"
    using s1 s2 s3 s4 by (simp del: step.simps)
  then show ?thesis by simp
qed

lemma reachable_run: "reachable env c \<Longrightarrow> reachable env (snd (run env as c))"
proof (induction as arbitrary: c)
  case Nil
  then show ?case by simp
next
  case (Cons a as)
  have "reachable env (snd (step env a c))"
    using Cons.prems by (rule reachable_step)
  then show ?case
    using Cons.IH [of "snd (step env a c)"]
    by (cases "step env a c") (auto split: option.splits)
qed

lemma reachable_scenario_downloading: "reachable scenario_env scenario_downloading"
  unfolding scenario_downloading_def scenario_init_def
  by (rule reachable_run) (rule reachable_init)

text \<open>
  C5, as the claim states it, fails: a disconnect in the middle of a download does not
  discard the partial transfer buffer; the attribute keeps the bytes received so far.
\<close>

theorem disconnect_during_download_counterexample:
  "binaryWorld scenario_downloading = Some ''AAAA'' \<and>
   binaryWorld (snd (disconnect scenario_downloading)) = Some ''AAAA''"
  by (simp add: scenario_downloading_eq disconnect_def onDisconnect_def collaborator_defs)

text \<open>
  C5, amended. A disconnect during a download, in any state the client can reach,
  raises nothing, closes the socket and leaves nothing registered with the event loop,
  so that data arriving afterwards is not handled; it leaves the partial transfer buffer
  as it is, neither clearing it nor writing it to the cache, and leaves the cache and the
  game model unchanged. After a following connect, a handshake with the client's
  version, an empty negotiate-flags response and a world-hash response that misses the
  cache, the buffer is the empty string and the chunk request carries offset 0.
\<close>

theorem disconnect_during_download:
  assumes "reachable env c" "tcp c = Some s" "binaryWorld c = Some b"
  shows "fst (disconnect c) = None \<and>
     tcp (snd (disconnect c)) = None \<and>
     closed (heap (snd (disconnect c)) ! s) \<and>
     step env (Receive s' p) (snd (disconnect c)) = (None, snd (disconnect c)) \<and>
     binaryWorld (snd (disconnect c)) = Some b \<and>
     cacheStore (snd (disconnect c)) = cacheStore c \<and>
     game (snd (disconnect c)) = game c \<and>
     (a \<noteq> [] \<longrightarrow> socketConnect env a (defaultPort env) = None \<longrightarrow>
      splitAbbreviations env d = [] \<longrightarrow>
      lifetime \<noteq> ''permanent'' \<or> cacheStore c h = None \<longrightarrow>
        fst (run env
               [Disconnect, Connect (Some a),
                Receive (length (heap c)) (Hello (protocolVersion env) n),
                Receive (length (heap c)) (Message (MsgNegotiateFlags d)),
                Receive (length (heap c)) (Message (MsgWantWHash lifetime h))] c) = None \<and>
        binaryWorld (snd (run env
               [Disconnect, Connect (Some a),
                Receive (length (heap c)) (Hello (protocolVersion env) n),
                Receive (length (heap c)) (Message (MsgNegotiateFlags d)),
                Receive (length (heap c)) (Message (MsgWantWHash lifetime h))] c)) = Some [] \<and>
        wire (snd (run env
               [Disconnect, Connect (Some a),
                Receive (length (heap c)) (Hello (protocolVersion env) n),
                Receive (length (heap c)) (Message (MsgNegotiateFlags d)),
                Receive (length (heap c)) (Message (MsgWantWHash lifetime h))] c)) =
          wire c @
            [(length (heap c),
              OutNegotiateFlags (joinAbbreviations env (map fst (flagDict env)))),
             (length (heap c), OutWantWHash),
             (length (heap c), OutGetWorld 0)])"
proof -
  let ?c1 = "snd (disconnect c)"
  have inv: "connInv c" using assms(1) by (rule reachable_connInv)
  with assms(2) have u: "udp c = None" and lt: "s < length (heap c)"
    by (simp_all add: connInv_def)
  have inv1: "connInv ?c1" using inv by (rule connInv_disconnect)
  have t1: "tcp ?c1 = None" by (simp add: disconnect_fields)
  with inv1 have src: "sources (eventLoop ?c1) = []" by (simp add: connInv_def)
  have A: "step env (Receive s' p) ?c1 = (None, ?c1)"
    using src by (simp add: receive_unregistered)
  have B: "closed (heap ?c1 ! s)"
    using assms(2) u lt by (rule disconnect_closes)
  have len: "length (heap ?c1) = length (heap c)" by (simp add: disconnect_fields)
  have C: "fst (run env
               [Disconnect, Connect (Some a),
                Receive (length (heap c)) (Hello (protocolVersion env) n),
                Receive (length (heap c)) (Message (MsgNegotiateFlags d)),
                Receive (length (heap c)) (Message (MsgWantWHash lifetime h))] c) = None \<and>
        binaryWorld (snd (run env
               [Disconnect, Connect (Some a),
                Receive (length (heap c)) (Hello (protocolVersion env) n),
                Receive (length (heap c)) (Message (MsgNegotiateFlags d)),
                Receive (length (heap c)) (Message (MsgWantWHash lifetime h))] c)) = Some [] \<and>
        wire (snd (run env
               [Disconnect, Connect (Some a),
                Receive (length (heap c)) (Hello (protocolVersion env) n),
                Receive (length (heap c)) (Message (MsgNegotiateFlags d)),
                Receive (length (heap c)) (Message (MsgWantWHash lifetime h))] c)) =
          wire c @
            [(length (heap c),
              OutNegotiateFlags (joinAbbreviations env (map fst (flagDict env)))),
             (length (heap c), OutWantWHash),
             (length (heap c), OutGetWorld 0)]"
    if h1: "a \<noteq> []" and h2: "socketConnect env a (defaultPort env) = None"
      and h3: "splitAbbreviations env d = []"
      and h4: "lifetime \<noteq> ''permanent'' \<or> cacheStore c h = None"
  proof -
    have h4': "lifetime \<noteq> ''permanent'' \<or> cacheStore ?c1 h = None"
      using h4 by (simp add: disconnect_keeps)
    have r: "run env
               [Disconnect, Connect (Some a),
                Receive (length (heap c)) (Hello (protocolVersion env) n),
                Receive (length (heap c)) (Message (MsgNegotiateFlags d)),
                Receive (length (heap c)) (Message (MsgWantWHash lifetime h))] c =
             run env
               [Connect (Some a),
                Receive (length (heap ?c1)) (Hello (protocolVersion env) n),
                Receive (length (heap ?c1)) (Message (MsgNegotiateFlags d)),
                Receive (length (heap ?c1)) (Message (MsgWantWHash lifetime h))] ?c1"
      by (simp only: run_disconnect len)
    show ?thesis
      unfolding r
      using fresh_download [OF t1 h1 h2 h3 h4', where n = n]
      by (simp only: disconnect_keeps len)
  qed
  from A B C t1 assms(3) show ?thesis
    by (simp add: disconnect_keeps)
qed

theorem disconnect_during_download_witness:
  "reachable scenario_env scenario_downloading \<and>
   tcp scenario_downloading = Some 0 \<and>
   binaryWorld scenario_downloading = Some ''AAAA'' \<and>
   socketConnect scenario_env ''bzflag.example.org'' (defaultPort scenario_env) = None \<and>
   splitAbbreviations scenario_env [] = [] \<and>
   cacheStore scenario_downloading ''abc123'' = None \<and>
   step scenario_env (Receive 0 (Message (MsgGetWorld ''BB'' 0)))
       (snd (disconnect scenario_downloading)) =
     (None, snd (disconnect scenario_downloading)) \<and>
   binaryWorld (snd (disconnect scenario_downloading)) = Some ''AAAA'' \<and>
   cacheStore (snd (disconnect scenario_downloading)) ''abc123'' = None \<and>
   binaryWorld (snd (run scenario_env
       [Disconnect, Connect (Some ''bzflag.example.org''),
        Receive 1 (Hello ''1.0'' 8),
        Receive 1 (Message (MsgNegotiateFlags [])),
        Receive 1 (Message (MsgWantWHash ''permanent'' ''abc123''))]
       scenario_downloading)) = Some [] \<and>
   wire (snd (run scenario_env
       [Disconnect, Connect (Some ''bzflag.example.org''),
        Receive 1 (Hello ''1.0'' 8),
        Receive 1 (Message (MsgNegotiateFlags [])),
        Receive 1 (Message (MsgWantWHash ''permanent'' ''abc123''))]
       scenario_downloading)) =
     [(0, OutNegotiateFlags ''AB''), (0, OutWantWHash), (0, OutGetWorld 0), (0, OutGetWorld 4),
      (1, OutNegotiateFlags ''AB''), (1, OutWantWHash), (1, OutGetWorld 0)]"
proof -
  have h2: "tcp scenario_downloading = Some 0"
    and h3: "binaryWorld scenario_downloading = Some ''AAAA''"
    and f1: "cacheStore scenario_downloading ''abc123'' = None"
    and f2: "length (heap scenario_downloading) = 1"
    and f3: "wire scenario_downloading =
      [(0, OutNegotiateFlags ''AB''), (0, OutWantWHash), (0, OutGetWorld 0), (0, OutGetWorld 4)]"
    by (simp_all add: scenario_downloading_eq)
  have e: "socketConnect scenario_env ''bzflag.example.org'' (defaultPort scenario_env) = None"
    "splitAbbreviations scenario_env [] = []"
    "protocolVersion scenario_env = ''1.0''"
    "joinAbbreviations scenario_env (map fst (flagDict scenario_env)) = ''AB''"
    by (simp_all add: scenario_env_def str_int_def digit_def)
  show ?thesis
    using reachable_scenario_downloading h2 h3 f1 f2 f3 e
      disconnect_during_download [OF reachable_scenario_downloading h2 h3,
        where s' = 0 and p = "Message (MsgGetWorld ''BB'' 0)"
          and a = "''bzflag.example.org''" and d = "[]" and lifetime = "''permanent''"
          and h = "''abc123''" and n = 8]
    by (simp del: run.simps step.simps)
qed

end
